theory Spec2Isabelle
  imports Main "HOL-Library.Sublist"
begin

section \<open>The code execution engine of \<^verbatim>\<open>code_execution.py\<close>\<close>

text \<open>
  The development embeds \<^verbatim>\<open>SafeCodeExecutor\<close> and the session part of
  \<^verbatim>\<open>CodeInteractionEngine\<close>. A Python \<^verbatim>\<open>str\<close> is a \<^typ>\<open>string\<close>, one
  \<^typ>\<open>char\<close> for each character; a raised exception is the \<open>Inl\<close> of a sum; the
  executor object is a record that every method takes and returns. The code to run is
  the one text that is written to a file with an encoding, so it is kept as its list of
  code points. What the operating
  system decides (the clock, the random number, what the child process does) is an
  argument of the model, so a theorem quantified over it holds for every behaviour of
  the environment. The other calls into the operating system (making a directory,
  opening and removing a file, signalling the child) are taken to succeed; the write of
  the code fails exactly when UTF-8 cannot encode the text. Wall-clock
  fields of the results (\<^verbatim>\<open>execution_time\<close>,
  \<^verbatim>\<open>timestamp\<close>) and the environment handed to the child are left out: the
  properties below do not read them.
\<close>

subsection \<open>Python values\<close>

datatype error = ValueError string | UnicodeEncodeError nat

text \<open>
  The code points of a text. \<^verbatim>\<open>str.encode('utf-8')\<close>, which a write to a file opened
  with \<^verbatim>\<open>encoding='utf-8'\<close> runs, raises \<^verbatim>\<open>UnicodeEncodeError\<close> at the first
  surrogate (a code point from D800 to DFFF); the error carries that position.
\<close>

type_synonym unicode = "nat list"

definition codepoints :: "string \<Rightarrow> unicode" where
  "codepoints s = map of_char s"

definition is_surrogate :: "nat \<Rightarrow> bool" where
  "is_surrogate c = (55296 \<le> c \<and> c \<le> 57343)"

fun surrogate_from :: "unicode \<Rightarrow> nat \<Rightarrow> nat option" where
  "surrogate_from [] i = None"
| "surrogate_from (c # cs) i = (if is_surrogate c then Some i else surrogate_from cs (i + 1))"

definition first_surrogate :: "unicode \<Rightarrow> nat option" where
  "first_surrogate code = surrogate_from code 0"

text \<open>\<^verbatim>\<open>str(n)\<close> for an integer, as the f-strings of the source format it.\<close>

definition digit_char :: "nat \<Rightarrow> char" where
  "digit_char d = ''0123456789'' ! d"

function str_nat :: "nat \<Rightarrow> string" where
  "str_nat n = (if n < 10 then [digit_char n] else str_nat (n div 10) @ [digit_char (n mod 10)])"
  by pat_completeness auto
termination
  by (relation "measure (\<lambda>n. n)") auto

declare str_nat.simps [simp del]

definition str_int :: "int \<Rightarrow> string" where
  "str_int i = (if i < 0 then CHR ''-'' # str_nat (nat (- i)) else str_nat (nat i))"

text \<open>\<^verbatim>\<open>str.lower()\<close> on the letters A to Z; every other character is kept.\<close>

definition lower_char :: "char \<Rightarrow> char" where
  "lower_char c =
     (case map_of (zip ''ABCDEFGHIJKLMNOPQRSTUVWXYZ'' ''abcdefghijklmnopqrstuvwxyz'') c of
        None \<Rightarrow> c
      | Some l \<Rightarrow> l)"

definition lower :: "string \<Rightarrow> string" where
  "lower s = map lower_char s"

text \<open>\<^verbatim>\<open>sep.join(xs)\<close>.\<close>

fun str_join :: "string \<Rightarrow> string list \<Rightarrow> string" where
  "str_join sep [] = []"
| "str_join sep [x] = x"
| "str_join sep (x # y # zs) = x @ sep @ str_join sep (y # zs)"

text \<open>\<^verbatim>\<open>random.randint(a, b)\<close>: a number between \<open>a\<close> and \<open>b\<close>, both included, chosen
  by the entropy \<open>seed\<close>.\<close>

definition randint :: "nat \<Rightarrow> nat \<Rightarrow> nat \<Rightarrow> nat" where
  "randint a b seed = a + seed mod (b - a + 1)"

subsection \<open>Paths\<close>

text \<open>
  A \<^verbatim>\<open>pathlib.Path\<close> with a final component: the text of its parent directory and
  its name. \<open>joinpath\<close> is the text of \<^verbatim>\<open>Path(d) / n\<close> on POSIX.
\<close>

record path =
  parent :: string
  name :: string

definition joinpath :: "string \<Rightarrow> string \<Rightarrow> string" where
  "joinpath d n = (if d = ''.'' then n else if d = ''/'' then ''/'' @ n else d @ ''/'' @ n)"

definition path_str :: "path \<Rightarrow> string" where
  "path_str p = joinpath (parent p) (name p)"

text \<open>\<^verbatim>\<open>s.rfind(c)\<close>: the index of the last occurrence, \<open>-1\<close> when there is none.\<close>

primrec rfind_from :: "string \<Rightarrow> char \<Rightarrow> int \<Rightarrow> int \<Rightarrow> int" where
  "rfind_from [] c i best = best"
| "rfind_from (x # xs) c i best = rfind_from xs c (i + 1) (if x = c then i else best)"

definition rfind :: "string \<Rightarrow> char \<Rightarrow> int" where
  "rfind s c = rfind_from s c 0 (- 1)"

definition path_suffix :: "path \<Rightarrow> string" where
  "path_suffix p =
     (let i = rfind (name p) CHR ''.'' in
      if 0 < i \<and> i < int (length (name p)) - 1 then drop (nat i) (name p) else [])"

definition stem :: "path \<Rightarrow> string" where
  "stem p =
     (let i = rfind (name p) CHR ''.'' in
      if 0 < i \<and> i < int (length (name p)) - 1 then take (nat i) (name p) else name p)"

text \<open>
  \<^verbatim>\<open>Path.with_suffix(sfx)\<close>. The source only passes the empty suffix, so pathlib's
  check of the new suffix is left out; its refusal of a path with an empty name is kept
  (such a path is its parent alone, as in \<^verbatim>\<open>PosixPath('.') has an empty name\<close>; the
  names that the executor builds are never empty).
\<close>

definition with_suffix :: "path \<Rightarrow> string \<Rightarrow> error + path" where
  "with_suffix p sfx =
     (if name p = []
      then Inl (ValueError
        (''PosixPath('' @ [CHR 0x27] @ parent p @ [CHR 0x27] @ '') has an empty name''))
      else let old_suffix = path_suffix p in
        Inr (p\<lparr>name :=
          (if old_suffix = [] then name p @ sfx
           else take (length (name p) - length old_suffix) (name p) @ sfx)\<rparr>))"

subsection \<open>Results, the environment and the executor\<close>

record ExecutionResult =
  success :: bool
  stdout :: string
  stderr :: string
  exit_code :: int
  command :: string
  working_directory :: string
  environment :: "(string \<times> string) list"

text \<open>
  What the spawned child does. \<^verbatim>\<open>create_subprocess_exec\<close> either raises (the text
  of the exception is kept) or yields a process. The process may change the files on
  disk; it then either finishes within the timeout, with its two decoded streams and its
  return code, or it does not, and after \<^verbatim>\<open>terminate()\<close> it either exits within the
  grace period or is still running. The streams are the texts that
  \<^verbatim>\<open>bytes.decode('utf-8', errors='replace')\<close> yields, a call that cannot raise.
\<close>

datatype after_terminate = ExitsInGrace | StillRunning

datatype run_outcome =
  Completed string string int
| TimedOut after_terminate

datatype spawn_outcome =
  SpawnRaises string
| Spawned nat "(string \<rightharpoonup> unicode) \<Rightarrow> (string \<rightharpoonup> unicode)" run_outcome

record world =
  clock :: nat
  rand :: nat
  child :: spawn_outcome
  pid_clock :: nat

text \<open>
  The effects on the outside, in the order the source performs them; the executor keeps
  them in a log that the source does not have. \<open>Spawn argv cwd\<close> is the call of
  \<^verbatim>\<open>create_subprocess_exec\<close> with that argument list and working directory, whether
  it yields a process or raises.
\<close>

datatype event =
  Mkdir string
| WriteFile string
| Chmod string
| Spawn "string list" string
| Terminate
| WaitFor nat
| Kill
| Unlink string

fun is_spawn :: "event \<Rightarrow> bool" where
  "is_spawn (Spawn argv cwd) = True"
| "is_spawn e = False"

fun is_file_io :: "event \<Rightarrow> bool" where
  "is_file_io (Mkdir d) = True"
| "is_file_io (WriteFile p) = True"
| "is_file_io (Chmod p) = True"
| "is_file_io (Unlink p) = True"
| "is_file_io e = False"

record executor =
  workspace_dir :: string
  files :: "string \<rightharpoonup> unicode"
  execution_history :: "ExecutionResult list"
  active_processes :: "string \<rightharpoonup> nat"
  events :: "event list"

definition default_timeout :: int where
  "default_timeout = 30"

definition max_output_size :: nat where
  "max_output_size = 1024 * 1024"

definition allowed_commands :: "string list" where
  "allowed_commands =
     [''python'', ''python3'', ''node'', ''npm'', ''pip'', ''pip3'',
      ''gcc'', ''g++'', ''javac'', ''java'', ''go'', ''cargo'',
      ''make'', ''cmake'', ''docker'', ''git'']"

definition exists_path :: "executor \<Rightarrow> path \<Rightarrow> bool" where
  "exists_path ex p = (files ex (path_str p) \<noteq> None)"

subsection \<open>\<^verbatim>\<open>_create_temp_file\<close>\<close>

definition extensions :: "(string \<times> string) list" where
  "extensions =
     [(''python'', ''.py''), (''javascript'', ''.js''), (''typescript'', ''.ts''),
      (''java'', ''.java''), (''cpp'', ''.cpp''), (''c'', ''.c''), (''go'', ''.go''),
      (''rust'', ''.rs''), (''shell'', ''.sh'')]"

text \<open>
  The loop \<^verbatim>\<open>while temp_file.exists() and counter < 100\<close>, with the loop variables
  \<open>temp_file\<close> and \<open>counter\<close> as arguments.
\<close>

function alloc_loop ::
  "(string \<rightharpoonup> unicode) \<Rightarrow> string \<Rightarrow> string \<Rightarrow> string \<Rightarrow> path \<Rightarrow> nat \<Rightarrow> path" where
  "alloc_loop fs temp_dir unique_id extension temp_file counter =
     (if fs (path_str temp_file) \<noteq> None \<and> counter < 100
      then alloc_loop fs temp_dir unique_id extension
             \<lparr>parent = temp_dir,
              name = ''code_'' @ unique_id @ ''_'' @ str_nat (counter + 1) @ extension\<rparr>
             (counter + 1)
      else temp_file)"
  by pat_completeness auto
termination
  by (relation "measure (\<lambda>(fs, temp_dir, unique_id, extension, temp_file, counter). 100 - counter)")
     auto

declare alloc_loop.simps [simp del]

text \<open>The name that the loop tries for a counter.\<close>

definition candidate :: "string \<Rightarrow> string \<Rightarrow> string \<Rightarrow> nat \<Rightarrow> path" where
  "candidate temp_dir unique_id extension counter =
     \<lparr>parent = temp_dir,
      name = ''code_'' @ unique_id @ ''_'' @ str_nat counter @ extension\<rparr>"

text \<open>
  \<^verbatim>\<open>_create_temp_file\<close> in two parts. The first is the function up to the end of its
  loop: the value of \<open>temp_file\<close> there, which does not depend on the code.
\<close>

definition allocate_temp_file :: "executor \<Rightarrow> nat \<Rightarrow> nat \<Rightarrow> string \<Rightarrow> path" where
  "allocate_temp_file ex now seed language =
     (let extension = (case map_of extensions (lower language) of
                         None \<Rightarrow> ''.txt'' | Some e \<Rightarrow> e);
          temp_dir = joinpath (workspace_dir ex) ''temp'';
          unique_id = str_nat now @ ''_'' @ str_nat (randint 1000 9999 seed)
      in alloc_loop (files ex) temp_dir unique_id extension
           \<lparr>parent = temp_dir, name = ''code_'' @ unique_id @ extension\<rparr> 0)"

text \<open>
  The second part is the whole function. \<^verbatim>\<open>open(temp_file, 'w', encoding='utf-8')\<close>
  creates the file, or empties the one that is there; \<^verbatim>\<open>f.write(code)\<close> then encodes
  the text, and when that raises the function is left with the empty file on disk.
\<close>

definition create_temp_file ::
  "executor \<Rightarrow> nat \<Rightarrow> nat \<Rightarrow> unicode \<Rightarrow> string \<Rightarrow> (error + path) \<times> executor" where
  "create_temp_file ex now seed code language =
     (let temp_dir = joinpath (workspace_dir ex) ''temp'';
          temp_file = allocate_temp_file ex now seed language;
          opened = ex\<lparr>files := (files ex)(path_str temp_file \<mapsto> []),
                      events := events ex @ [Mkdir temp_dir, WriteFile (path_str temp_file)]\<rparr>
      in case first_surrogate code of
           Some i \<Rightarrow> (Inl (UnicodeEncodeError i), opened)
         | None \<Rightarrow>
             (Inr temp_file,
              opened\<lparr>files := (files opened)(path_str temp_file \<mapsto> code),
                     events := events opened @
                       (if lower language = ''shell'' then [Chmod (path_str temp_file)]
                        else [])\<rparr>))"

subsection \<open>\<^verbatim>\<open>_get_execution_command\<close>\<close>

definition get_java_command :: "path \<Rightarrow> string list" where
  "get_java_command file_path = [''java'', ''-cp'', parent file_path, stem file_path]"

definition get_cpp_command :: "path \<Rightarrow> error + string list" where
  "get_cpp_command file_path =
     (case with_suffix file_path [] of
        Inl e \<Rightarrow> Inl e
      | Inr executable \<Rightarrow>
          Inr [''g++'', ''-o'', path_str executable, path_str file_path, ''&&'',
               path_str executable])"

definition get_c_command :: "path \<Rightarrow> error + string list" where
  "get_c_command file_path =
     (case with_suffix file_path [] of
        Inl e \<Rightarrow> Inl e
      | Inr executable \<Rightarrow>
          Inr [''gcc'', ''-o'', path_str executable, path_str file_path, ''&&'',
               path_str executable])"

definition get_rust_command :: "path \<Rightarrow> error + string list" where
  "get_rust_command file_path =
     (case with_suffix file_path [] of
        Inl e \<Rightarrow> Inl e
      | Inr executable \<Rightarrow>
          Inr [''rustc'', path_str file_path, ''-o'', path_str executable, ''&&'',
               path_str executable])"

text \<open>
  The dictionary \<open>commands\<close> of the source, in its order. Python builds every entry
  before the lookup, so the three helpers that can raise are run first whatever the
  language is.
\<close>

definition commands ::
  "path \<Rightarrow> string \<Rightarrow> string list \<Rightarrow> string list \<Rightarrow> string list \<Rightarrow> (string \<times> string list) list" where
  "commands file_path file_ref cpp c rust =
     [(''python'', [''python3'', file_ref]),
      (''javascript'', [''node'', file_ref]),
      (''typescript'', [''npx'', ''ts-node'', file_ref]),
      (''java'', get_java_command file_path),
      (''cpp'', cpp),
      (''c'', c),
      (''go'', [''go'', ''run'', file_ref]),
      (''rust'', rust),
      (''shell'', [''bash'', file_ref])]"

text \<open>The keys of the dictionary; they do not depend on the file.\<close>

definition language_keys :: "string list" where
  "language_keys = map fst (commands \<lparr>parent = [], name = []\<rparr> [] [] [] [])"

definition check_command :: "string \<Rightarrow> string list option \<Rightarrow> error + string list" where
  "check_command language found =
     (case found of
        None \<Rightarrow> Inl (ValueError (''Unsupported language: '' @ language))
      | Some [] \<Rightarrow> Inl (ValueError (''Unsupported language: '' @ language))
      | Some (c0 # args) \<Rightarrow>
          if c0 \<in> set allowed_commands then Inr (c0 # args)
          else Inl (ValueError (''Command not allowed: '' @ c0)))"

definition get_execution_command :: "path \<Rightarrow> string \<Rightarrow> bool \<Rightarrow> error + string list" where
  "get_execution_command file_path language use_filename_only =
     (let file_ref = (if use_filename_only then name file_path else path_str file_path) in
      case get_cpp_command file_path of
        Inl e \<Rightarrow> Inl e
      | Inr cpp \<Rightarrow>
         (case get_c_command file_path of
            Inl e \<Rightarrow> Inl e
          | Inr c \<Rightarrow>
             (case get_rust_command file_path of
                Inl e \<Rightarrow> Inl e
              | Inr rust \<Rightarrow>
                  check_command language
                    (map_of (commands file_path file_ref cpp c rust) (lower language)))))"

subsection \<open>\<^verbatim>\<open>_safe_execute\<close>\<close>

text \<open>The two size limits on the decoded streams.\<close>

definition limit_stdout :: "string \<Rightarrow> string" where
  "limit_stdout s =
     (if length s > max_output_size
      then take max_output_size s @ CHR 0x0A # ''... [Output truncated]'' else s)"

definition limit_stderr :: "string \<Rightarrow> string" where
  "limit_stderr s =
     (if length s > max_output_size
      then take max_output_size s @ CHR 0x0A # ''... [Error output truncated]'' else s)"

text \<open>The \<^verbatim>\<open>finally\<close> block that takes the process out of the registry.\<close>

definition deregister :: "string \<Rightarrow> executor \<Rightarrow> executor" where
  "deregister process_id ex =
     (if active_processes ex process_id \<noteq> None
      then ex\<lparr>active_processes := (active_processes ex)(process_id := None)\<rparr> else ex)"

definition safe_execute ::
  "executor \<Rightarrow> spawn_outcome \<Rightarrow> nat \<Rightarrow> string list \<Rightarrow> string \<Rightarrow> int \<Rightarrow>
   (string \<times> string) list \<Rightarrow> ExecutionResult \<times> executor" where
  "safe_execute ex outcome now argv working_dir timeout env =
     (case outcome of
        SpawnRaises msg \<Rightarrow>
          (\<lparr>success = False, stdout = [], stderr = ''Execution error: '' @ msg,
            exit_code = - 2, command = str_join '' '' argv,
            working_directory = working_dir, environment = env\<rparr>,
           ex\<lparr>events := events ex @ [Spawn argv working_dir]\<rparr>)
      | Spawned handle fs_effect run \<Rightarrow>
          (let process_id = ''exec_'' @ str_nat now;
               ex1 = ex\<lparr>events := events ex @ [Spawn argv working_dir],
                        active_processes := (active_processes ex)(process_id \<mapsto> handle),
                        files := fs_effect (files ex)\<rparr>
           in case run of
                Completed out err returncode \<Rightarrow>
                  (\<lparr>success = (returncode = 0), stdout = limit_stdout out,
                    stderr = limit_stderr err, exit_code = returncode,
                    command = str_join '' '' argv, working_directory = working_dir,
                    environment = env\<rparr>,
                   deregister process_id ex1)
              | TimedOut after \<Rightarrow>
                  (\<lparr>success = False, stdout = [],
                    stderr = ''Execution timed out after '' @ str_int timeout @ '' seconds'',
                    exit_code = - 1, command = str_join '' '' argv,
                    working_directory = working_dir, environment = env\<rparr>,
                   deregister process_id
                     (ex1\<lparr>events := events ex1 @ [Terminate, WaitFor 5] @
                        (if after = StillRunning then [Kill] else [])\<rparr>))))"

subsection \<open>\<^verbatim>\<open>execute_code\<close>\<close>

text \<open>
  The \<^verbatim>\<open>finally\<close> block of \<^verbatim>\<open>execute_code\<close>. The removal is taken to succeed:
  \<^verbatim>\<open>Path.unlink()\<close> can raise, for instance when the child has put a directory at the
  path, and no theorem below is about that case.
\<close>

definition cleanup :: "path \<Rightarrow> executor \<Rightarrow> executor" where
  "cleanup temp_file ex =
     (if exists_path ex temp_file
      then ex\<lparr>files := (files ex)(path_str temp_file := None),
              events := events ex @ [Unlink (path_str temp_file)]\<rparr>
      else ex)"

text \<open>
  \<^verbatim>\<open>_create_temp_file\<close> is called before the \<^verbatim>\<open>try\<close>: when it raises, the exception
  leaves \<^verbatim>\<open>execute_code\<close> at once and the \<^verbatim>\<open>finally\<close> block is not run.
\<close>

definition execute_code ::
  "executor \<Rightarrow> world \<Rightarrow> unicode \<Rightarrow> string \<Rightarrow> int option \<Rightarrow> string option \<Rightarrow>
   (string \<times> string) list option \<Rightarrow> (error + ExecutionResult) \<times> executor" where
  "execute_code ex w code language timeout working_dir env =
     (let timeout1 = (case timeout of
                        None \<Rightarrow> default_timeout
                      | Some t \<Rightarrow> if t = 0 then default_timeout else t);
          env1 = (case env of None \<Rightarrow> [] | Some e \<Rightarrow> e)
      in case create_temp_file ex (clock w) (rand w) code language of
           (Inl e, ex1) \<Rightarrow> (Inl e, ex1)
         | (Inr temp_file, ex1) \<Rightarrow>
            (case get_execution_command temp_file language True of
               Inl e \<Rightarrow> (Inl e, cleanup temp_file ex1)
             | Inr argv \<Rightarrow>
                 (let (result, ex2) =
                        safe_execute ex1 (child w) (pid_clock w) argv (parent temp_file)
                          timeout1 env1;
                      ex3 = ex2\<lparr>execution_history := execution_history ex2 @ [result]\<rparr>
                  in (Inr result, cleanup temp_file ex3))))"

subsection \<open>Interactive sessions of \<^verbatim>\<open>CodeInteractionEngine\<close>\<close>

text \<open>
  A session is the dictionary that \<^verbatim>\<open>start_interactive_session\<close> builds; its
  \<^verbatim>\<open>created_at\<close> is kept as the text that \<^verbatim>\<open>isoformat()\<close> gives. A method that
  returns a dictionary returns an association list of keys and values.
\<close>

record session =
  session_id :: string
  session_language :: string
  created_at :: string
  session_history :: "ExecutionResult list"
  session_directory :: string

record engine =
  executor_of :: executor
  interactive_sessions :: "string \<rightharpoonup> session"

datatype pyval = PyStr string | PyInt int | PyResult ExecutionResult | PyNone

definition start_interactive_session ::
  "engine \<Rightarrow> nat \<Rightarrow> string \<Rightarrow> string \<Rightarrow> string \<times> engine" where
  "start_interactive_session eng now now_iso language =
     (let sid = ''session_'' @ str_nat now;
          s = \<lparr>session_id = sid, session_language = language, created_at = now_iso,
               session_history = [],
               session_directory = joinpath (workspace_dir (executor_of eng)) sid\<rparr>
      in (sid,
          eng\<lparr>executor_of := (executor_of eng)
                 \<lparr>events := events (executor_of eng) @ [Mkdir (session_directory s)]\<rparr>,
              interactive_sessions := (interactive_sessions eng)(sid \<mapsto> s)\<rparr>))"

definition execute_in_session ::
  "engine \<Rightarrow> world \<Rightarrow> string \<Rightarrow> unicode \<Rightarrow> (error + ExecutionResult) \<times> engine" where
  "execute_in_session eng w sid code =
     (case interactive_sessions eng sid of
        None \<Rightarrow> (Inl (ValueError (''Session not found: '' @ sid)), eng)
      | Some s \<Rightarrow>
          (case execute_code (executor_of eng) w code (session_language s) None
                  (Some (session_directory s)) None of
             (Inl e, ex1) \<Rightarrow> (Inl e, eng\<lparr>executor_of := ex1\<rparr>)
           | (Inr result, ex1) \<Rightarrow>
               (Inr result,
                eng\<lparr>executor_of := ex1,
                    interactive_sessions := (interactive_sessions eng)
                      (sid \<mapsto> s\<lparr>session_history := session_history s @ [result]\<rparr>)\<rparr>)))"

text \<open>
  \<^verbatim>\<open>get_session_info\<close> has no \<^verbatim>\<open>raise\<close>: both of its exits are a \<^verbatim>\<open>return\<close>
  of a dictionary, so its value is always an \<open>Inr\<close>.
\<close>

definition get_session_info :: "engine \<Rightarrow> string \<Rightarrow> error + (string \<times> pyval) list" where
  "get_session_info eng sid =
     (case interactive_sessions eng sid of
        None \<Rightarrow> Inr [(''error'', PyStr ''Session not found'')]
      | Some s \<Rightarrow>
          Inr [(''session_id'', PyStr sid),
               (''language'', PyStr (session_language s)),
               (''created_at'', PyStr (created_at s)),
               (''executions_count'', PyInt (int (length (session_history s)))),
               (''last_execution'',
                  if session_history s \<noteq> [] then PyResult (last (session_history s))
                  else PyNone)])"

subsection \<open>Concrete inputs\<close>

definition ex0 :: executor where
  "ex0 = \<lparr>workspace_dir = ''code_workspace'', files = Map.empty, execution_history = [],
           active_processes = Map.empty, events = []\<rparr>"

definition engine0 :: engine where
  "engine0 = \<lparr>executor_of = ex0, interactive_sessions = Map.empty\<rparr>"

definition world_of :: "spawn_outcome \<Rightarrow> world" where
  "world_of outcome = \<lparr>clock = 1700000000, rand = 234, child = outcome, pid_clock = 1700000001\<rparr>"

text \<open>
  A temporary directory in which the first name for the clock and random number of
  \<open>world_of\<close> and its hundred numbered variants are all taken.
\<close>

definition crowded_files :: "string \<rightharpoonup> unicode" where
  "crowded_files =
     map_of (map (\<lambda>p. (p, codepoints ''previous run''))
       (''code_workspace/temp/code_1700000000_1234.py'' #
        map (\<lambda>k. path_str (candidate ''code_workspace/temp'' ''1700000000_1234'' ''.py'' k))
          [1..<101]))"

definition crowded :: executor where
  "crowded = ex0\<lparr>files := crowded_files\<rparr>"

definition big_output :: string where
  "big_output = replicate 1048577 CHR ''a''"

section \<open>Properties\<close>

subsection \<open>Evaluation and helper lemmas\<close>

lemma str_nat_clock: "str_nat 1700000000 = ''1700000000''"
  by (simp add: str_nat.simps digit_char_def)

lemma str_nat_pid_clock: "str_nat 1700000001 = ''1700000001''"
  by (simp add: str_nat.simps digit_char_def)

lemma str_nat_rand: "str_nat (randint 1000 9999 234) = ''1234''"
  by (simp add: str_nat.simps digit_char_def randint_def)

text \<open>A text of characters below 256 has no surrogate: its write cannot raise.\<close>

lemma surrogate_from_codepoints: "surrogate_from (codepoints s) i = None"
proof (induction s arbitrary: i)
  case Nil
  then show ?case by (simp add: codepoints_def)
next
  case (Cons c s)
  have "(of_char c :: nat) < 256"
    by simp
  then have "\<not> is_surrogate (of_char c)"
    unfolding is_surrogate_def by linarith
  with Cons show ?case
    by (simp add: codepoints_def)
qed

lemma first_surrogate_codepoints: "first_surrogate (codepoints s) = None"
  by (simp add: first_surrogate_def surrogate_from_codepoints)

lemmas eval_defs =
  execute_code_def create_temp_file_def allocate_temp_file_def first_surrogate_codepoints
  get_execution_command_def get_cpp_command_def
  get_c_command_def get_rust_command_def get_java_command_def with_suffix_def path_suffix_def
  stem_def rfind_def joinpath_def path_str_def lower_def lower_char_def extensions_def
  commands_def check_command_def allowed_commands_def cleanup_def exists_path_def
  safe_execute_def deregister_def default_timeout_def alloc_loop.simps Let_def
  str_nat_clock str_nat_pid_clock str_nat_rand ex0_def world_of_def

lemma files_cleanup: "files (cleanup temp_file ex) (path_str temp_file) = None"
  by (simp add: cleanup_def exists_path_def)

lemma alloc_loop_name:
  "name temp_file \<noteq> [] \<Longrightarrow>
   name (alloc_loop fs temp_dir unique_id extension temp_file counter) \<noteq> []"
proof (induction fs temp_dir unique_id extension temp_file counter rule: alloc_loop.induct)
  case (1 fs temp_dir unique_id extension temp_file counter)
  show ?case
  proof (cases "fs (path_str temp_file) \<noteq> None \<and> counter < 100")
    case True
    then show ?thesis
      using "1.IH" by (subst alloc_loop.simps) simp
  next
    case False
    then show ?thesis
      using "1.prems" by (subst alloc_loop.simps) auto
  qed
qed

lemma alloc_loop_parent:
  "parent temp_file = temp_dir \<Longrightarrow>
   parent (alloc_loop fs temp_dir unique_id extension temp_file counter) = temp_dir"
proof (induction fs temp_dir unique_id extension temp_file counter rule: alloc_loop.induct)
  case (1 fs temp_dir unique_id extension temp_file counter)
  show ?case
  proof (cases "fs (path_str temp_file) \<noteq> None \<and> counter < 100")
    case True
    then show ?thesis
      using "1.IH" by (subst alloc_loop.simps) simp
  next
    case False
    then show ?thesis
      using "1.prems" by (subst alloc_loop.simps) auto
  qed
qed

lemma allocate_temp_file_name: "name (allocate_temp_file ex now seed language) \<noteq> []"
  by (simp add: allocate_temp_file_def Let_def alloc_loop_name)

lemma allocate_temp_file_parent:
  "parent (allocate_temp_file ex now seed language) = joinpath (workspace_dir ex) ''temp''"
  by (simp add: allocate_temp_file_def Let_def alloc_loop_parent)

text \<open>The two exits of \<^verbatim>\<open>_create_temp_file\<close>.\<close>

lemma create_temp_file_written:
  assumes "first_surrogate code = None"
  shows "create_temp_file ex now seed code language =
           (Inr (allocate_temp_file ex now seed language),
            ex\<lparr>files := (files ex)(path_str (allocate_temp_file ex now seed language) \<mapsto> code),
               events := events ex @
                 [Mkdir (joinpath (workspace_dir ex) ''temp''),
                  WriteFile (path_str (allocate_temp_file ex now seed language))] @
                 (if lower language = ''shell''
                  then [Chmod (path_str (allocate_temp_file ex now seed language))] else [])\<rparr>)"
  by (simp add: create_temp_file_def Let_def assms)

lemma create_temp_file_raises:
  assumes "first_surrogate code = Some i"
  shows "create_temp_file ex now seed code language =
           (Inl (UnicodeEncodeError i),
            ex\<lparr>files := (files ex)(path_str (allocate_temp_file ex now seed language) \<mapsto> []),
               events := events ex @
                 [Mkdir (joinpath (workspace_dir ex) ''temp''),
                  WriteFile (path_str (allocate_temp_file ex now seed language))]\<rparr>)"
  by (simp add: create_temp_file_def Let_def assms)

lemma create_temp_file_history:
  "execution_history (snd (create_temp_file ex now seed code language)) = execution_history ex"
  by (simp add: create_temp_file_def Let_def split: option.splits)

lemma create_temp_file_spawns:
  "filter is_spawn (events (snd (create_temp_file ex now seed code language))) =
     filter is_spawn (events ex)"
  by (simp add: create_temp_file_def Let_def split: option.splits)

lemma safe_execute_timeout:
  "safe_execute ex (Spawned h fx (TimedOut a)) now argv wd n env =
     (\<lparr>success = False, stdout = [],
       stderr = ''Execution timed out after '' @ str_int n @ '' seconds'',
       exit_code = - 1, command = str_join '' '' argv, working_directory = wd,
       environment = env\<rparr>,
      ex\<lparr>events := events ex @ [Spawn argv wd, Terminate, WaitFor 5] @
              (if a = StillRunning then [Kill] else []),
         active_processes := (active_processes ex)(''exec_'' @ str_nat now := None),
         files := fx (files ex)\<rparr>)"
  by (simp add: safe_execute_def deregister_def Let_def)

lemma safe_execute_spawn_raises:
  "safe_execute ex (SpawnRaises msg) now argv wd n env =
     (\<lparr>success = False, stdout = [], stderr = ''Execution error: '' @ msg,
       exit_code = - 2, command = str_join '' '' argv, working_directory = wd,
       environment = env\<rparr>,
      ex\<lparr>events := events ex @ [Spawn argv wd]\<rparr>)"
  by (simp add: safe_execute_def)

lemma safe_execute_completed:
  "safe_execute ex (Spawned h fx (Completed out err rc)) now argv wd n env =
     (\<lparr>success = (rc = 0), stdout = limit_stdout out, stderr = limit_stderr err,
       exit_code = rc, command = str_join '' '' argv, working_directory = wd,
       environment = env\<rparr>,
      ex\<lparr>events := events ex @ [Spawn argv wd],
         active_processes := (active_processes ex)(''exec_'' @ str_nat now := None),
         files := fx (files ex)\<rparr>)"
  by (simp add: safe_execute_def deregister_def Let_def)

text \<open>\<^verbatim>\<open>execute_code\<close> when the file could not be written, and when it could.\<close>

lemma execute_code_unwritten:
  assumes "first_surrogate code = Some i"
  shows "execute_code ex w code language timeout working_dir env =
           (Inl (UnicodeEncodeError i), snd (create_temp_file ex (clock w) (rand w) code language))"
  by (simp add: execute_code_def Let_def create_temp_file_raises [OF assms])

lemma execute_code_result:
  assumes "first_surrogate code = None"
  shows "fst (execute_code ex w code language timeout working_dir env) =
     (case get_execution_command (allocate_temp_file ex (clock w) (rand w) language)
             language True of
        Inl e \<Rightarrow> Inl e
      | Inr argv \<Rightarrow>
          Inr (fst (safe_execute (snd (create_temp_file ex (clock w) (rand w) code language))
                 (child w) (pid_clock w) argv
                 (parent (allocate_temp_file ex (clock w) (rand w) language))
                 (case timeout of None \<Rightarrow> default_timeout
                  | Some t \<Rightarrow> if t = 0 then default_timeout else t)
                 (case env of None \<Rightarrow> [] | Some e \<Rightarrow> e))))"
  by (simp add: execute_code_def Let_def split_beta create_temp_file_written [OF assms]
        split: sum.splits)

lemma execute_code_state:
  assumes "first_surrogate code = None"
  shows "snd (execute_code ex w code language timeout working_dir env) =
     (case get_execution_command (allocate_temp_file ex (clock w) (rand w) language)
             language True of
        Inl e \<Rightarrow>
          cleanup (allocate_temp_file ex (clock w) (rand w) language)
            (snd (create_temp_file ex (clock w) (rand w) code language))
      | Inr argv \<Rightarrow>
          cleanup (allocate_temp_file ex (clock w) (rand w) language)
            ((snd (safe_execute (snd (create_temp_file ex (clock w) (rand w) code language))
                 (child w) (pid_clock w) argv
                 (parent (allocate_temp_file ex (clock w) (rand w) language))
                 (case timeout of None \<Rightarrow> default_timeout
                  | Some t \<Rightarrow> if t = 0 then default_timeout else t)
                 (case env of None \<Rightarrow> [] | Some e \<Rightarrow> e)))
             \<lparr>execution_history :=
                execution_history
                  (snd (safe_execute (snd (create_temp_file ex (clock w) (rand w) code language))
                     (child w) (pid_clock w) argv
                     (parent (allocate_temp_file ex (clock w) (rand w) language))
                     (case timeout of None \<Rightarrow> default_timeout
                      | Some t \<Rightarrow> if t = 0 then default_timeout else t)
                     (case env of None \<Rightarrow> [] | Some e \<Rightarrow> e))) @
                [fst (safe_execute (snd (create_temp_file ex (clock w) (rand w) code language))
                     (child w) (pid_clock w) argv
                     (parent (allocate_temp_file ex (clock w) (rand w) language))
                     (case timeout of None \<Rightarrow> default_timeout
                      | Some t \<Rightarrow> if t = 0 then default_timeout else t)
                     (case env of None \<Rightarrow> [] | Some e \<Rightarrow> e))]\<rparr>))"
  by (simp add: execute_code_def Let_def split_beta create_temp_file_written [OF assms]
        split: sum.splits)

lemma temp_file_gone:
  assumes "first_surrogate code = None"
  shows "files (snd (execute_code ex w code language timeout working_dir env))
     (path_str (allocate_temp_file ex (clock w) (rand w) language)) = None"
  by (simp add: execute_code_state [OF assms] files_cleanup split: sum.splits)

subsection \<open>Success and exit code\<close>

text \<open>
  Claim C10. Every result that \<^verbatim>\<open>_safe_execute\<close> builds has \<open>success\<close> true exactly
  when its \<open>exit_code\<close> is zero: a completed run sets \<open>success\<close> to whether the child's
  return code is zero and \<open>exit_code\<close> to that code, a timeout gives \<open>False\<close> and \<open>-1\<close>,
  a failed spawn gives \<open>False\<close> and \<open>-2\<close>; and so has every result that
  \<^verbatim>\<open>execute_code\<close> returns.
\<close>

theorem success_iff_exit_code_zero:
  "success (fst (safe_execute ex outcome now argv wd n env)) =
     (exit_code (fst (safe_execute ex outcome now argv wd n env)) = 0)
   \<and> success (fst (safe_execute ex (Spawned h fx (Completed out err rc)) now argv wd n env)) = (rc = 0)
   \<and> exit_code (fst (safe_execute ex (Spawned h fx (Completed out err rc)) now argv wd n env)) = rc
   \<and> success (fst (safe_execute ex (Spawned h fx (TimedOut a)) now argv wd n env)) = False
   \<and> exit_code (fst (safe_execute ex (Spawned h fx (TimedOut a)) now argv wd n env)) = - 1
   \<and> success (fst (safe_execute ex (SpawnRaises msg) now argv wd n env)) = False
   \<and> exit_code (fst (safe_execute ex (SpawnRaises msg) now argv wd n env)) = - 2
   \<and> (case fst (execute_code ex w code language timeout working_dir env1) of
         Inl e \<Rightarrow> True
       | Inr r \<Rightarrow> success r = (exit_code r = 0))"
proof -
  have general: "success (fst (safe_execute ex' outcome' now' argv' wd' n' env')) =
     (exit_code (fst (safe_execute ex' outcome' now' argv' wd' n' env')) = 0)"
    for ex' outcome' now' argv' wd' n' env'
  proof (cases outcome')
    case (SpawnRaises m)
    then show ?thesis by (simp add: safe_execute_spawn_raises)
  next
    case (Spawned h' fx' run)
    then show ?thesis
      by (cases run) (simp_all add: safe_execute_timeout safe_execute_completed)
  qed
  have engine: "(case fst (execute_code ex w code language timeout working_dir env1) of
         Inl e \<Rightarrow> True
       | Inr r \<Rightarrow> success r = (exit_code r = 0))"
  proof (cases "first_surrogate code")
    case None
    then show ?thesis
      by (simp add: execute_code_result general split: sum.splits)
  next
    case (Some i)
    then show ?thesis
      by (simp add: execute_code_unwritten)
  qed
  show ?thesis
    using general engine
    by (simp add: safe_execute_timeout safe_execute_completed safe_execute_spawn_raises)
qed

lemma ex0_fields:
  "workspace_dir ex0 = ''code_workspace''" "files ex0 = Map.empty" "events ex0 = []"
  "execution_history ex0 = []" "active_processes ex0 = Map.empty"
  by (simp_all add: ex0_def)

lemma world_of_fields:
  "clock (world_of outcome) = 1700000000" "rand (world_of outcome) = 234"
  "child (world_of outcome) = outcome" "pid_clock (world_of outcome) = 1700000001"
  by (simp_all add: world_of_def)

lemma allocated_python:
  "allocate_temp_file ex0 1700000000 234 ''python'' =
     \<lparr>parent = ''code_workspace/temp'', name = ''code_1700000000_1234.py''\<rparr>"
  by (simp add: eval_defs)

lemma resolved_python:
  "get_execution_command
     \<lparr>parent = ''code_workspace/temp'', name = ''code_1700000000_1234.py''\<rparr> ''python'' True =
   Inr [''python3'', ''code_1700000000_1234.py'']"
  by (simp add: eval_defs)

subsection \<open>The temporary file\<close>

text \<open>
  When the code can be written, the file is gone after the call, on every exit of the
  \<^verbatim>\<open>try\<close> block (lemma \<open>temp_file_gone\<close>). When the write raises, the file that
  \<^verbatim>\<open>open\<close> made stays, whatever the language is.
\<close>

lemma unwritten_file_stays:
  assumes "first_surrogate code = Some i"
  shows "files (snd (execute_code ex w code language timeout working_dir env))
           (path_str (allocate_temp_file ex (clock w) (rand w) language)) = Some []"
  by (simp add: execute_code_unwritten [OF assms] create_temp_file_raises [OF assms])

text \<open>
  Claim C3 at a code text that is one lone surrogate (the Python string
  \<^verbatim>\<open>"\udc80"\<close>). \<^verbatim>\<open>_create_temp_file\<close> opens the file and its write raises
  \<^verbatim>\<open>UnicodeEncodeError\<close>; the call is before the \<^verbatim>\<open>try\<close> of \<^verbatim>\<open>execute_code\<close>, so the
  exception propagates without the \<^verbatim>\<open>finally\<close> block: nothing is unlinked and the
  empty temporary file is still on disk after the call.
\<close>

theorem unwritable_code_leaves_temp_file:
  "first_surrogate [56448] = Some 0
   \<and> fst (execute_code ex0 (world_of (Spawned 7 (\<lambda>fs. fs) (Completed [] [] 0))) [56448]
        ''python'' None None None) = Inl (UnicodeEncodeError 0)
   \<and> files (snd (execute_code ex0 (world_of (Spawned 7 (\<lambda>fs. fs) (Completed [] [] 0))) [56448]
        ''python'' None None None)) ''code_workspace/temp/code_1700000000_1234.py'' = Some []
   \<and> events (snd (execute_code ex0 (world_of (Spawned 7 (\<lambda>fs. fs) (Completed [] [] 0))) [56448]
        ''python'' None None None)) =
       [Mkdir ''code_workspace/temp'', WriteFile ''code_workspace/temp/code_1700000000_1234.py'']"
proof -
  have lone: "first_surrogate [56448] = Some 0"
    by (simp add: first_surrogate_def is_surrogate_def)
  show ?thesis
    by (simp add: lone execute_code_unwritten [OF lone] create_temp_file_raises [OF lone]
          world_of_fields allocated_python ex0_fields path_str_def joinpath_def)
qed

subsection \<open>A spawn that raises\<close>

text \<open>
  Claim C1. When the code was written, command resolution succeeded and
  \<^verbatim>\<open>create_subprocess_exec\<close> raises an exception with text \<open>msg\<close>, \<^verbatim>\<open>execute_code\<close>
  returns (it does not raise) a result with \<open>success = False\<close>, \<open>exit_code = -2\<close> and the
  \<open>stderr\<close> \<^verbatim>\<open>"Execution error: "\<close> followed by \<open>msg\<close>, which contains \<open>msg\<close>.
\<close>

theorem spawn_exception_returned_as_result:
  assumes written: "first_surrogate code = None"
    and resolved:
      "get_execution_command (allocate_temp_file ex (clock w) (rand w) language)
         language True = Inr argv"
    and raises: "child w = SpawnRaises msg"
  shows "fst (execute_code ex w code language timeout working_dir env) =
           Inr \<lparr>success = False, stdout = [], stderr = ''Execution error: '' @ msg,
                exit_code = - 2, command = str_join '' '' argv,
                working_directory = joinpath (workspace_dir ex) ''temp'',
                environment = (case env of None \<Rightarrow> [] | Some e \<Rightarrow> e)\<rparr>
         \<and> sublist msg (''Execution error: '' @ msg)"
proof
  show "fst (execute_code ex w code language timeout working_dir env) =
           Inr \<lparr>success = False, stdout = [], stderr = ''Execution error: '' @ msg,
                exit_code = - 2, command = str_join '' '' argv,
                working_directory = joinpath (workspace_dir ex) ''temp'',
                environment = (case env of None \<Rightarrow> [] | Some e \<Rightarrow> e)\<rparr>"
    by (simp add: execute_code_result [OF written] resolved raises safe_execute_spawn_raises
          allocate_temp_file_parent)
  show "sublist msg (''Execution error: '' @ msg)"
    by (rule sublist_append_leftI)
qed

theorem spawn_exception_returned_as_result_witness:
  "fst (execute_code ex0 (world_of (SpawnRaises ''[Errno 2] No such file or directory''))
          (codepoints ''print(2+2)'') ''python'' (Some 10) None None) =
     Inr \<lparr>success = False, stdout = [],
          stderr = ''Execution error: [Errno 2] No such file or directory'',
          exit_code = - 2, command = ''python3 code_1700000000_1234.py'',
          working_directory = ''code_workspace/temp'', environment = []\<rparr>"
proof -
  have resolved:
    "get_execution_command
       (allocate_temp_file ex0
          (clock (world_of (SpawnRaises ''[Errno 2] No such file or directory'')))
          (rand (world_of (SpawnRaises ''[Errno 2] No such file or directory'')))
          ''python'')
       ''python'' True = Inr [''python3'', ''code_1700000000_1234.py'']"
    by (simp add: world_of_fields allocated_python resolved_python)
  have raises:
    "child (world_of (SpawnRaises ''[Errno 2] No such file or directory'')) =
       SpawnRaises ''[Errno 2] No such file or directory''"
    by (simp add: world_of_def)
  show ?thesis
    using spawn_exception_returned_as_result
      [OF first_surrogate_codepoints [of "''print(2+2)''"] resolved raises,
       where timeout = "Some 10" and working_dir = None and env = None]
    by (simp add: ex0_fields joinpath_def)
qed

subsection \<open>A child that overruns the timeout\<close>

text \<open>
  Claim C2. When the child has not finished after the requested \<open>n\<close> seconds,
  \<^verbatim>\<open>execute_code\<close> returns a result with \<open>success = False\<close>, \<open>exit_code = -1\<close> and the
  \<open>stderr\<close> \<^verbatim>\<open>"Execution timed out after n seconds"\<close>, which contains
  \<^verbatim>\<open>"timed out after n"\<close>; after the spawn the engine calls \<^verbatim>\<open>terminate()\<close>, waits up
  to 5 seconds, and calls \<^verbatim>\<open>kill()\<close> exactly when the child is still running then.
\<close>

theorem timeout_terminates_then_kills:
  assumes written: "first_surrogate code = None"
    and resolved:
      "get_execution_command (allocate_temp_file ex (clock w) (rand w) language)
         language True = Inr argv"
    and overruns: "child w = Spawned h fx (TimedOut a)"
    and requested: "timeout = Some n" "n \<noteq> 0"
  shows "fst (execute_code ex w code language timeout working_dir env) =
           Inr \<lparr>success = False, stdout = [],
                stderr = ''Execution timed out after '' @ str_int n @ '' seconds'',
                exit_code = - 1, command = str_join '' '' argv,
                working_directory = joinpath (workspace_dir ex) ''temp'',
                environment = (case env of None \<Rightarrow> [] | Some e \<Rightarrow> e)\<rparr>
         \<and> sublist (''timed out after '' @ str_int n)
               (''Execution timed out after '' @ str_int n @ '' seconds'')
         \<and> events (snd (execute_code ex w code language timeout working_dir env)) =
             events (snd (create_temp_file ex (clock w) (rand w) code language)) @
             [Spawn argv (joinpath (workspace_dir ex) ''temp''), Terminate, WaitFor 5] @
             (if a = StillRunning then [Kill] else []) @
             (if fx (files (snd (create_temp_file ex (clock w) (rand w) code language)))
                   (path_str (allocate_temp_file ex (clock w) (rand w) language)) = None
              then []
              else [Unlink (path_str (allocate_temp_file ex (clock w) (rand w) language))])"
proof -
  have "sublist (''timed out after '' @ str_int n)
          (''Execution '' @ (''timed out after '' @ str_int n) @ '' seconds'')"
    by (rule sublist_appendI)
  then have contains: "sublist (''timed out after '' @ str_int n)
          (''Execution timed out after '' @ str_int n @ '' seconds'')"
    by simp
  have result: "fst (execute_code ex w code language timeout working_dir env) =
           Inr \<lparr>success = False, stdout = [],
                stderr = ''Execution timed out after '' @ str_int n @ '' seconds'',
                exit_code = - 1, command = str_join '' '' argv,
                working_directory = joinpath (workspace_dir ex) ''temp'',
                environment = (case env of None \<Rightarrow> [] | Some e \<Rightarrow> e)\<rparr>"
    by (simp add: execute_code_result [OF written] resolved overruns requested
          safe_execute_timeout allocate_temp_file_parent)
  have effects: "events (snd (execute_code ex w code language timeout working_dir env)) =
             events (snd (create_temp_file ex (clock w) (rand w) code language)) @
             [Spawn argv (joinpath (workspace_dir ex) ''temp''), Terminate, WaitFor 5] @
             (if a = StillRunning then [Kill] else []) @
             (if fx (files (snd (create_temp_file ex (clock w) (rand w) code language)))
                   (path_str (allocate_temp_file ex (clock w) (rand w) language)) = None
              then []
              else [Unlink (path_str (allocate_temp_file ex (clock w) (rand w) language))])"
    by (simp add: execute_code_state [OF written] resolved overruns requested
          safe_execute_timeout allocate_temp_file_parent cleanup_def exists_path_def)
  from result contains effects show ?thesis
    by blast
qed

theorem timeout_terminates_then_kills_witness:
  "fst (execute_code ex0 (world_of (Spawned 4242 (\<lambda>fs. fs) (TimedOut StillRunning)))
          (codepoints ''while True: pass'') ''python'' (Some 2) None None) =
     Inr \<lparr>success = False, stdout = [], stderr = ''Execution timed out after 2 seconds'',
          exit_code = - 1, command = ''python3 code_1700000000_1234.py'',
          working_directory = ''code_workspace/temp'', environment = []\<rparr>
   \<and> events (snd (execute_code ex0 (world_of (Spawned 4242 (\<lambda>fs. fs) (TimedOut StillRunning)))
          (codepoints ''while True: pass'') ''python'' (Some 2) None None)) =
     [Mkdir ''code_workspace/temp'', WriteFile ''code_workspace/temp/code_1700000000_1234.py'',
      Spawn [''python3'', ''code_1700000000_1234.py''] ''code_workspace/temp'',
      Terminate, WaitFor 5, Kill, Unlink ''code_workspace/temp/code_1700000000_1234.py'']"
proof -
  have resolved:
    "get_execution_command
       (allocate_temp_file ex0
          (clock (world_of (Spawned 4242 (\<lambda>fs. fs) (TimedOut StillRunning))))
          (rand (world_of (Spawned 4242 (\<lambda>fs. fs) (TimedOut StillRunning))))
          ''python'')
       ''python'' True = Inr [''python3'', ''code_1700000000_1234.py'']"
    by (simp add: world_of_fields allocated_python resolved_python)
  have overruns:
    "child (world_of (Spawned 4242 (\<lambda>fs. fs) (TimedOut StillRunning))) =
       Spawned 4242 (\<lambda>fs. fs) (TimedOut StillRunning)"
    by (simp add: world_of_def)
  have two: "str_int 2 = ''2''"
    by (simp add: str_int_def str_nat.simps digit_char_def)
  show ?thesis
    using timeout_terminates_then_kills
      [OF first_surrogate_codepoints [of "''while True: pass''"] resolved overruns refl,
       where n = 2 and working_dir = None and env = None]
    by (simp add: two create_temp_file_written [OF first_surrogate_codepoints]
          world_of_fields allocated_python ex0_fields joinpath_def path_str_def
          lower_def lower_char_def)
qed

subsection \<open>Command resolution\<close>

lemma commands_keys: "map fst (commands p file_ref cpp c rust) = language_keys"
  by (simp add: commands_def language_keys_def)

lemma map_of_commands_None:
  "lower language \<notin> set language_keys \<Longrightarrow>
   map_of (commands p file_ref cpp c rust) (lower language) = None"
proof -
  have "fst ` set (commands p file_ref cpp c rust) = set language_keys"
    by (metis commands_keys set_map)
  then show "lower language \<notin> set language_keys \<Longrightarrow>
    map_of (commands p file_ref cpp c rust) (lower language) = None"
    by (simp add: map_of_eq_None_iff)
qed

lemma with_suffix_temp_file:
  "\<exists>executable. with_suffix (allocate_temp_file ex now seed language) [] = Inr executable"
  by (simp add: with_suffix_def Let_def allocate_temp_file_name)

lemma get_execution_command_resolved:
  assumes "with_suffix p [] = Inr executable"
  shows "get_execution_command p language b =
           check_command language
             (map_of (commands p (if b then name p else path_str p)
                [''g++'', ''-o'', path_str executable, path_str p, ''&&'', path_str executable]
                [''gcc'', ''-o'', path_str executable, path_str p, ''&&'', path_str executable]
                [''rustc'', path_str p, ''-o'', path_str executable, ''&&'',
                 path_str executable])
              (lower language))"
  by (simp add: get_execution_command_def get_cpp_command_def get_c_command_def
        get_rust_command_def assms Let_def)

lemma spawns_cleanup:
  "filter is_spawn (events (cleanup temp_file ex)) = filter is_spawn (events ex)"
  by (simp add: cleanup_def)

text \<open>What \<^verbatim>\<open>execute_code\<close> does when command resolution raises.\<close>

lemma execute_code_resolution_error:
  assumes written: "first_surrogate code = None"
    and failed: "get_execution_command (allocate_temp_file ex (clock w) (rand w) language)
             language True = Inl e"
  shows "fst (execute_code ex w code language timeout working_dir env) = Inl e"
    and "events (snd (execute_code ex w code language timeout working_dir env)) =
           events ex @
           [Mkdir (joinpath (workspace_dir ex) ''temp''),
            WriteFile (path_str (allocate_temp_file ex (clock w) (rand w) language))] @
           (if lower language = ''shell''
            then [Chmod (path_str (allocate_temp_file ex (clock w) (rand w) language))]
            else []) @
           [Unlink (path_str (allocate_temp_file ex (clock w) (rand w) language))]"
    and "execution_history (snd (execute_code ex w code language timeout working_dir env)) =
           execution_history ex"
  using failed
  by (simp_all add: execute_code_result [OF written] execute_code_state [OF written]
        cleanup_def exists_path_def create_temp_file_written [OF written])

text \<open>No exit of \<^verbatim>\<open>execute_code\<close> before \<^verbatim>\<open>_safe_execute\<close> spawns anything.\<close>

lemma no_spawn_without_command:
  assumes "get_execution_command (allocate_temp_file ex (clock w) (rand w) language)
             language True = Inl e"
  shows "filter is_spawn (events (snd (execute_code ex w code language timeout working_dir env))) =
           filter is_spawn (events ex)"
proof (cases "first_surrogate code")
  case None
  then show ?thesis
    by (simp add: execute_code_resolution_error(2) [OF None assms])
next
  case (Some i)
  then show ?thesis
    by (simp add: execute_code_unwritten create_temp_file_spawns)
qed

lemma error_without_command:
  assumes "get_execution_command (allocate_temp_file ex (clock w) (rand w) language)
             language True = Inl e"
  shows "fst (execute_code ex w code language timeout working_dir env) =
           (case first_surrogate code of None \<Rightarrow> Inl e | Some i \<Rightarrow> Inl (UnicodeEncodeError i))"
proof (cases "first_surrogate code")
  case None
  then show ?thesis
    by (simp add: execute_code_resolution_error(1) [OF None assms])
next
  case (Some i)
  then show ?thesis
    by (simp add: execute_code_unwritten)
qed

lemma lower_typescript: "lower ''typescript'' = ''typescript''"
  by (simp add: lower_def lower_char_def)

lemma lower_rust: "lower ''rust'' = ''rust''"
  by (simp add: lower_def lower_char_def)

lemma lower_shell: "lower ''shell'' = ''shell''"
  by (simp add: lower_def lower_char_def)

lemma resolve_typescript:
  "get_execution_command (allocate_temp_file ex now seed ''typescript'')
     ''typescript'' b = Inl (ValueError ''Command not allowed: npx'')"
proof -
  obtain executable where
    "with_suffix (allocate_temp_file ex now seed ''typescript'') [] = Inr executable"
    using with_suffix_temp_file by blast
  then show ?thesis
    by (simp add: get_execution_command_resolved lower_typescript commands_def
          check_command_def allowed_commands_def)
qed

lemma resolve_rust:
  "get_execution_command (allocate_temp_file ex now seed ''rust'')
     ''rust'' b = Inl (ValueError ''Command not allowed: rustc'')"
proof -
  obtain executable where
    "with_suffix (allocate_temp_file ex now seed ''rust'') [] = Inr executable"
    using with_suffix_temp_file by blast
  then show ?thesis
    by (simp add: get_execution_command_resolved lower_rust commands_def
          check_command_def allowed_commands_def)
qed

lemma resolve_shell:
  "get_execution_command (allocate_temp_file ex now seed ''shell'')
     ''shell'' b = Inl (ValueError ''Command not allowed: bash'')"
proof -
  obtain executable where
    "with_suffix (allocate_temp_file ex now seed ''shell'') [] = Inr executable"
    using with_suffix_temp_file by blast
  then show ?thesis
    by (simp add: get_execution_command_resolved lower_shell commands_def
          check_command_def allowed_commands_def)
qed

text \<open>
  Claim C5. The command table has an entry for each of \<^verbatim>\<open>typescript\<close>, \<^verbatim>\<open>rust\<close> and
  \<^verbatim>\<open>shell\<close>, whose first words are \<^verbatim>\<open>npx\<close>, \<^verbatim>\<open>rustc\<close> and \<^verbatim>\<open>bash\<close>; none of the
  three is in \<open>allowed_commands\<close>; so for every code text \<^verbatim>\<open>execute_code\<close> makes no call
  that spawns a process for these languages, and it raises \<^verbatim>\<open>Command not allowed\<close>
  (for a text that cannot be written it has raised before, in \<^verbatim>\<open>_create_temp_file\<close>).
\<close>

theorem unlisted_binaries_never_spawn:
  "map_of (commands p file_ref cpp c rust) ''typescript'' = Some [''npx'', ''ts-node'', file_ref]
   \<and> map_of (commands p file_ref cpp c rust) ''rust'' = Some rust
   \<and> map_of (commands p file_ref cpp c rust) ''shell'' = Some [''bash'', file_ref]
   \<and> ''npx'' \<notin> set allowed_commands
   \<and> ''rustc'' \<notin> set allowed_commands
   \<and> ''bash'' \<notin> set allowed_commands
   \<and> fst (execute_code ex w code ''typescript'' timeout working_dir env) =
       (case first_surrogate code of
          None \<Rightarrow> Inl (ValueError ''Command not allowed: npx'')
        | Some i \<Rightarrow> Inl (UnicodeEncodeError i))
   \<and> fst (execute_code ex w code ''rust'' timeout working_dir env) =
       (case first_surrogate code of
          None \<Rightarrow> Inl (ValueError ''Command not allowed: rustc'')
        | Some i \<Rightarrow> Inl (UnicodeEncodeError i))
   \<and> fst (execute_code ex w code ''shell'' timeout working_dir env) =
       (case first_surrogate code of
          None \<Rightarrow> Inl (ValueError ''Command not allowed: bash'')
        | Some i \<Rightarrow> Inl (UnicodeEncodeError i))
   \<and> filter is_spawn (events (snd (execute_code ex w code ''typescript'' timeout working_dir env))) =
       filter is_spawn (events ex)
   \<and> filter is_spawn (events (snd (execute_code ex w code ''rust'' timeout working_dir env))) =
       filter is_spawn (events ex)
   \<and> filter is_spawn (events (snd (execute_code ex w code ''shell'' timeout working_dir env))) =
       filter is_spawn (events ex)"
proof -
  have table:
    "map_of (commands p file_ref cpp c rust) ''typescript'' = Some [''npx'', ''ts-node'', file_ref]"
    "map_of (commands p file_ref cpp c rust) ''rust'' = Some rust"
    "map_of (commands p file_ref cpp c rust) ''shell'' = Some [''bash'', file_ref]"
    by (simp_all add: commands_def)
  have unlisted: "''npx'' \<notin> set allowed_commands" "''rustc'' \<notin> set allowed_commands"
    "''bash'' \<notin> set allowed_commands"
    by (simp_all add: allowed_commands_def)
  note errors = error_without_command [OF resolve_typescript]
    error_without_command [OF resolve_rust] error_without_command [OF resolve_shell]
  note quiet = no_spawn_without_command [OF resolve_typescript]
    no_spawn_without_command [OF resolve_rust] no_spawn_without_command [OF resolve_shell]
  show ?thesis
    by (simp only: table unlisted errors quiet simp_thms)
qed

lemma not_shell: "lower language \<notin> set language_keys \<Longrightarrow> lower language \<noteq> ''shell''"
  by (auto simp add: language_keys_def commands_def)

lemma resolve_unsupported:
  assumes "lower language \<notin> set language_keys"
  shows "get_execution_command (allocate_temp_file ex now seed language) language b =
           Inl (ValueError (''Unsupported language: '' @ language))"
proof -
  obtain executable where
    "with_suffix (allocate_temp_file ex now seed language) [] = Inr executable"
    using with_suffix_temp_file by blast
  then show ?thesis
    by (simp add: get_execution_command_resolved map_of_commands_None [OF assms]
          check_command_def)
qed

text \<open>The file of a language that is no key of the table has the extension \<^verbatim>\<open>.txt\<close>.\<close>

lemma alloc_loop_extension:
  "suffix extension (name temp_file) \<Longrightarrow>
   suffix extension (name (alloc_loop fs temp_dir unique_id extension temp_file counter))"
proof (induction fs temp_dir unique_id extension temp_file counter rule: alloc_loop.induct)
  case (1 fs temp_dir unique_id extension temp_file counter)
  show ?case
  proof (cases "fs (path_str temp_file) \<noteq> None \<and> counter < 100")
    case True
    have "suffix extension
        (''code_'' @ unique_id @ ''_'' @ str_nat (counter + 1) @ extension)"
      by (metis append.assoc suffixI)
    then show ?thesis
      using True "1.IH" by (subst alloc_loop.simps) simp
  next
    case False
    then show ?thesis
      using "1.prems" by (subst alloc_loop.simps) auto
  qed
qed

lemma unsupported_extension:
  assumes "lower language \<notin> set language_keys"
  shows "suffix ''.txt'' (name (allocate_temp_file ex now seed language))"
proof -
  have "map fst extensions = language_keys"
    by (simp add: extensions_def language_keys_def commands_def)
  then have "fst ` set extensions = set language_keys"
    by (metis set_map)
  then have none: "map_of extensions (lower language) = None"
    using assms by (simp add: map_of_eq_None_iff)
  have "suffix ''.txt''
      (''code_'' @ (str_nat now @ ''_'' @ str_nat (randint 1000 9999 seed)) @ ''.txt'')"
    by (metis append.assoc suffixI)
  then show ?thesis
    unfolding allocate_temp_file_def Let_def none option.case
    by (intro alloc_loop_extension) simp
qed

text \<open>
  Claim C7, as amended. For a language whose lower-case form is no key of the command
  table, and a code text that can be written, \<^verbatim>\<open>execute_code\<close> raises
  \<^verbatim>\<open>Unsupported language\<close> before any process is spawned and adds nothing to the
  history. It does perform file I/O first: the temporary directory is made and the code is
  written to a \<^verbatim>\<open>.txt\<close> file, which the \<^verbatim>\<open>finally\<close> block deletes before the exception
  propagates.
\<close>

theorem unsupported_language_fails_before_spawn:
  assumes absent: "lower language \<notin> set language_keys"
    and written: "first_surrogate code = None"
  shows "fst (execute_code ex w code language timeout working_dir env) =
           Inl (ValueError (''Unsupported language: '' @ language))
         \<and> filter is_spawn (events (snd (execute_code ex w code language timeout working_dir env))) =
             filter is_spawn (events ex)
         \<and> events (snd (execute_code ex w code language timeout working_dir env)) =
             events ex @
             [Mkdir (joinpath (workspace_dir ex) ''temp''),
              WriteFile (path_str (allocate_temp_file ex (clock w) (rand w) language)),
              Unlink (path_str (allocate_temp_file ex (clock w) (rand w) language))]
         \<and> suffix ''.txt'' (name (allocate_temp_file ex (clock w) (rand w) language))
         \<and> files (snd (execute_code ex w code language timeout working_dir env))
               (path_str (allocate_temp_file ex (clock w) (rand w) language)) = None
         \<and> execution_history (snd (execute_code ex w code language timeout working_dir env)) =
             execution_history ex"
proof -
  note failed = execute_code_resolution_error [OF written resolve_unsupported [OF absent]]
  note gone = temp_file_gone [OF written]
  note extension = unsupported_extension [OF absent]
  show ?thesis
    by (simp add: failed gone extension not_shell [OF absent])
qed

lemma allocated_cobol:
  "allocate_temp_file ex0 1700000000 234 ''cobol'' =
     \<lparr>parent = ''code_workspace/temp'', name = ''code_1700000000_1234.txt''\<rparr>"
  by (simp add: eval_defs)

theorem unsupported_language_fails_before_spawn_witness:
  "fst (execute_code ex0 (world_of (SpawnRaises [])) (codepoints ''DISPLAY 1.'') ''cobol''
          None None None) =
     Inl (ValueError ''Unsupported language: cobol'')
   \<and> filter is_spawn
       (events (snd (execute_code ex0 (world_of (SpawnRaises [])) (codepoints ''DISPLAY 1.'')
          ''cobol'' None None None))) = []
   \<and> files (snd (execute_code ex0 (world_of (SpawnRaises [])) (codepoints ''DISPLAY 1.'')
          ''cobol'' None None None)) ''code_workspace/temp/code_1700000000_1234.txt'' = None"
proof -
  have absent: "lower ''cobol'' \<notin> set language_keys"
    by (simp add: lower_def lower_char_def language_keys_def commands_def)
  show ?thesis
    using unsupported_language_fails_before_spawn
      [OF absent first_surrogate_codepoints [of "''DISPLAY 1.''"],
       where ex = ex0 and w = "world_of (SpawnRaises [])" and timeout = None
         and working_dir = None and env = None]
    by (simp add: allocated_cobol ex0_fields world_of_fields path_str_def joinpath_def)
qed

text \<open>
  The claim C7 as first stated (no file I/O for an unsupported language) fails for
  \<^verbatim>\<open>cobol\<close>: the call makes a directory, writes a file and removes it.
\<close>

theorem unsupported_language_file_io_counterexample:
  "fst (execute_code ex0 (world_of (SpawnRaises [])) (codepoints ''DISPLAY 1.'') ''cobol''
          None None None) =
     Inl (ValueError ''Unsupported language: cobol'')
   \<and> filter is_file_io
       (events (snd (execute_code ex0 (world_of (SpawnRaises [])) (codepoints ''DISPLAY 1.'')
          ''cobol'' None None None))) =
     [Mkdir ''code_workspace/temp'',
      WriteFile ''code_workspace/temp/code_1700000000_1234.txt'',
      Unlink ''code_workspace/temp/code_1700000000_1234.txt'']"
  by (simp add: eval_defs)

subsection \<open>The compiled languages\<close>

lemma lower_c: "lower ''c'' = ''c''"
  by (simp add: lower_def lower_char_def)

lemma lower_cpp: "lower ''cpp'' = ''cpp''"
  by (simp add: lower_def lower_char_def)

text \<open>
  Whatever the child does, \<^verbatim>\<open>_safe_execute\<close> calls \<^verbatim>\<open>create_subprocess_exec\<close> once,
  with the list it was given, and \<^verbatim>\<open>execute_code\<close> makes no other such call.
\<close>

lemma safe_execute_spawns:
  "filter is_spawn (events (snd (safe_execute ex outcome now argv wd n env))) =
     filter is_spawn (events ex) @ [Spawn argv wd]"
proof (cases outcome)
  case (SpawnRaises m)
  then show ?thesis by (simp add: safe_execute_spawn_raises)
next
  case (Spawned h fx run)
  then show ?thesis
    by (cases run) (simp_all add: safe_execute_timeout safe_execute_completed)
qed

lemma execute_code_spawns:
  assumes written: "first_surrogate code = None"
    and resolved:
      "get_execution_command (allocate_temp_file ex (clock w) (rand w) language)
         language True = Inr argv"
  shows "filter is_spawn (events (snd (execute_code ex w code language timeout working_dir env))) =
           filter is_spawn (events ex) @ [Spawn argv (joinpath (workspace_dir ex) ''temp'')]"
  by (simp add: execute_code_state [OF written] resolved spawns_cleanup safe_execute_spawns
        create_temp_file_spawns allocate_temp_file_parent)

lemma execute_code_completed:
  assumes written: "first_surrogate code = None"
    and resolved:
      "get_execution_command (allocate_temp_file ex (clock w) (rand w) language)
         language True = Inr argv"
    and finished: "child w = Spawned h fx (Completed out err rc)"
  shows "fst (execute_code ex w code language timeout working_dir env) =
           Inr \<lparr>success = (rc = 0), stdout = limit_stdout out, stderr = limit_stderr err,
                exit_code = rc, command = str_join '' '' argv,
                working_directory = joinpath (workspace_dir ex) ''temp'',
                environment = (case env of None \<Rightarrow> [] | Some e \<Rightarrow> e)\<rparr>"
  by (simp add: execute_code_result [OF written] resolved finished
        safe_execute_completed allocate_temp_file_parent)

text \<open>
  For \<^verbatim>\<open>c\<close> and \<^verbatim>\<open>cpp\<close> command resolution returns the list that the helper built:
  compiler, \<^verbatim>\<open>-o\<close>, executable, source file, \<^verbatim>\<open>&&\<close>, executable, where the executable
  is the source path without its suffix.
\<close>

lemma resolve_c:
  assumes "with_suffix p [] = Inr executable"
  shows "get_execution_command p ''c'' b =
           Inr [''gcc'', ''-o'', path_str executable, path_str p, ''&&'', path_str executable]"
  by (simp add: get_execution_command_resolved [OF assms] lower_c commands_def
        check_command_def allowed_commands_def)

lemma resolve_cpp:
  assumes "with_suffix p [] = Inr executable"
  shows "get_execution_command p ''cpp'' b =
           Inr [''g++'', ''-o'', path_str executable, path_str p, ''&&'', path_str executable]"
  by (simp add: get_execution_command_resolved [OF assms] lower_cpp commands_def
        check_command_def allowed_commands_def)

lemma allocated_c:
  "allocate_temp_file ex0 1700000000 234 ''c'' =
     \<lparr>parent = ''code_workspace/temp'', name = ''code_1700000000_1234.c''\<rparr>"
  by (simp add: eval_defs)

lemma allocated_cpp:
  "allocate_temp_file ex0 1700000000 234 ''cpp'' =
     \<lparr>parent = ''code_workspace/temp'', name = ''code_1700000000_1234.cpp''\<rparr>"
  by (simp add: eval_defs)

lemma executable_c:
  "with_suffix \<lparr>parent = ''code_workspace/temp'', name = ''code_1700000000_1234.c''\<rparr> [] =
     Inr \<lparr>parent = ''code_workspace/temp'', name = ''code_1700000000_1234''\<rparr>"
  by (simp add: with_suffix_def path_suffix_def rfind_def Let_def)

lemma executable_cpp:
  "with_suffix \<lparr>parent = ''code_workspace/temp'', name = ''code_1700000000_1234.cpp''\<rparr> [] =
     Inr \<lparr>parent = ''code_workspace/temp'', name = ''code_1700000000_1234''\<rparr>"
  by (simp add: with_suffix_def path_suffix_def rfind_def Let_def)

text \<open>
  Claim C8 at a C and a C++ program. Command resolution returns one list in which
  \<^verbatim>\<open>&&\<close> is the fifth element, and \<^verbatim>\<open>execute_code\<close> hands that list to
  \<^verbatim>\<open>create_subprocess_exec\<close>, which starts its first element with all the others as
  arguments: no shell reads the \<^verbatim>\<open>&&\<close>. So, whatever the child does, the one process
  that the engine starts is the compiler, with \<^verbatim>\<open>&&\<close> and the path of the executable as
  two more of its arguments, and no process is started for the executable: the run step
  does not exist. For \<^verbatim>\<open>rust\<close> the helper builds a list of the same shape, but command
  resolution raises \<^verbatim>\<open>Command not allowed: rustc\<close> and nothing is started at all.
\<close>

theorem chained_command_given_to_exec:
  "get_execution_command
     \<lparr>parent = ''code_workspace/temp'', name = ''code_1700000000_1234.c''\<rparr> ''c'' True =
     Inr [''gcc'', ''-o'', ''code_workspace/temp/code_1700000000_1234'',
          ''code_workspace/temp/code_1700000000_1234.c'', ''&&'',
          ''code_workspace/temp/code_1700000000_1234'']
   \<and> filter is_spawn (events (snd (execute_code ex0 (world_of outcome)
         (codepoints ''int main() { return 0; }'') ''c'' None None None))) =
     [Spawn [''gcc'', ''-o'', ''code_workspace/temp/code_1700000000_1234'',
             ''code_workspace/temp/code_1700000000_1234.c'', ''&&'',
             ''code_workspace/temp/code_1700000000_1234'']
        ''code_workspace/temp'']
   \<and> get_execution_command
     \<lparr>parent = ''code_workspace/temp'', name = ''code_1700000000_1234.cpp''\<rparr> ''cpp'' True =
     Inr [''g++'', ''-o'', ''code_workspace/temp/code_1700000000_1234'',
          ''code_workspace/temp/code_1700000000_1234.cpp'', ''&&'',
          ''code_workspace/temp/code_1700000000_1234'']
   \<and> filter is_spawn (events (snd (execute_code ex0 (world_of outcome)
         (codepoints ''int main() { return 0; }'') ''cpp'' None None None))) =
     [Spawn [''g++'', ''-o'', ''code_workspace/temp/code_1700000000_1234'',
             ''code_workspace/temp/code_1700000000_1234.cpp'', ''&&'',
             ''code_workspace/temp/code_1700000000_1234'']
        ''code_workspace/temp'']
   \<and> get_rust_command
     \<lparr>parent = ''code_workspace/temp'', name = ''code_1700000000_1234.rs''\<rparr> =
     Inr [''rustc'', ''code_workspace/temp/code_1700000000_1234.rs'', ''-o'',
          ''code_workspace/temp/code_1700000000_1234'', ''&&'',
          ''code_workspace/temp/code_1700000000_1234'']
   \<and> fst (execute_code ex0 (world_of outcome) (codepoints ''fn main() {}'') ''rust''
         None None None) =
     Inl (ValueError ''Command not allowed: rustc'')
   \<and> filter is_spawn (events (snd (execute_code ex0 (world_of outcome)
         (codepoints ''fn main() {}'') ''rust'' None None None))) = []"
proof -
  have c: "get_execution_command
     \<lparr>parent = ''code_workspace/temp'', name = ''code_1700000000_1234.c''\<rparr> ''c'' True =
     Inr [''gcc'', ''-o'', ''code_workspace/temp/code_1700000000_1234'',
          ''code_workspace/temp/code_1700000000_1234.c'', ''&&'',
          ''code_workspace/temp/code_1700000000_1234'']"
    by (simp add: resolve_c [OF executable_c] path_str_def joinpath_def)
  have cpp: "get_execution_command
     \<lparr>parent = ''code_workspace/temp'', name = ''code_1700000000_1234.cpp''\<rparr> ''cpp'' True =
     Inr [''g++'', ''-o'', ''code_workspace/temp/code_1700000000_1234'',
          ''code_workspace/temp/code_1700000000_1234.cpp'', ''&&'',
          ''code_workspace/temp/code_1700000000_1234'']"
    by (simp add: resolve_cpp [OF executable_cpp] path_str_def joinpath_def)
  have c': "get_execution_command
      (allocate_temp_file ex0 (clock (world_of outcome)) (rand (world_of outcome)) ''c'')
      ''c'' True =
     Inr [''gcc'', ''-o'', ''code_workspace/temp/code_1700000000_1234'',
          ''code_workspace/temp/code_1700000000_1234.c'', ''&&'',
          ''code_workspace/temp/code_1700000000_1234'']"
    by (simp add: world_of_fields allocated_c c)
  have cpp': "get_execution_command
      (allocate_temp_file ex0 (clock (world_of outcome)) (rand (world_of outcome)) ''cpp'')
      ''cpp'' True =
     Inr [''g++'', ''-o'', ''code_workspace/temp/code_1700000000_1234'',
          ''code_workspace/temp/code_1700000000_1234.cpp'', ''&&'',
          ''code_workspace/temp/code_1700000000_1234'']"
    by (simp add: world_of_fields allocated_cpp cpp)
  have run_c: "filter is_spawn (events (snd (execute_code ex0 (world_of outcome)
         (codepoints ''int main() { return 0; }'') ''c'' None None None))) =
     [Spawn [''gcc'', ''-o'', ''code_workspace/temp/code_1700000000_1234'',
             ''code_workspace/temp/code_1700000000_1234.c'', ''&&'',
             ''code_workspace/temp/code_1700000000_1234'']
        ''code_workspace/temp'']"
    by (simp add: execute_code_spawns [OF first_surrogate_codepoints c'] ex0_fields
          joinpath_def)
  have run_cpp: "filter is_spawn (events (snd (execute_code ex0 (world_of outcome)
         (codepoints ''int main() { return 0; }'') ''cpp'' None None None))) =
     [Spawn [''g++'', ''-o'', ''code_workspace/temp/code_1700000000_1234'',
             ''code_workspace/temp/code_1700000000_1234.cpp'', ''&&'',
             ''code_workspace/temp/code_1700000000_1234'']
        ''code_workspace/temp'']"
    by (simp add: execute_code_spawns [OF first_surrogate_codepoints cpp'] ex0_fields
          joinpath_def)
  have rust: "get_rust_command
     \<lparr>parent = ''code_workspace/temp'', name = ''code_1700000000_1234.rs''\<rparr> =
     Inr [''rustc'', ''code_workspace/temp/code_1700000000_1234.rs'', ''-o'',
          ''code_workspace/temp/code_1700000000_1234'', ''&&'',
          ''code_workspace/temp/code_1700000000_1234'']"
    by (simp add: get_rust_command_def with_suffix_def path_suffix_def rfind_def Let_def
          path_str_def joinpath_def)
  have rust_error: "fst (execute_code ex0 (world_of outcome) (codepoints ''fn main() {}'')
         ''rust'' None None None) = Inl (ValueError ''Command not allowed: rustc'')"
    by (simp add: error_without_command [OF resolve_rust] first_surrogate_codepoints)
  have rust_quiet: "filter is_spawn (events (snd (execute_code ex0 (world_of outcome)
         (codepoints ''fn main() {}'') ''rust'' None None None))) = []"
    by (simp add: no_spawn_without_command [OF resolve_rust] ex0_fields)
  from c run_c cpp run_cpp rust rust_error rust_quiet show ?thesis
    by blast
qed

subsection \<open>The limit on the output\<close>

lemma limit_stdout_long:
  "max_output_size < length s \<Longrightarrow>
   limit_stdout s = take max_output_size s @ CHR 0x0A # ''... [Output truncated]''"
  by (simp add: limit_stdout_def)

text \<open>
  Claim C6, as amended. The limit is 1048576 characters of the decoded text. A stream of
  a completed run that is longer is cut to its first 1048576 characters, followed by a
  marker: a newline and \<^verbatim>\<open>... [Output truncated]\<close> for the standard output, a newline and
  \<^verbatim>\<open>... [Error output truncated]\<close> for the standard error. The returned text has
  exactly the limit plus the length of that marker as its length and ends in it. Each
  stream is limited by its own test: what the result holds for one stream does not depend
  on the other.
\<close>

theorem output_limited_by_own_markers:
  assumes long_out: "max_output_size < length out"
    and long_err: "max_output_size < length err"
  shows "max_output_size = 1048576
    \<and> limit_stdout out = take max_output_size out @ CHR 0x0A # ''... [Output truncated]''
    \<and> length (limit_stdout out) = max_output_size + length (CHR 0x0A # ''... [Output truncated]'')
    \<and> suffix (CHR 0x0A # ''... [Output truncated]'') (limit_stdout out)
    \<and> limit_stderr err = take max_output_size err @ CHR 0x0A # ''... [Error output truncated]''
    \<and> length (limit_stderr err) =
        max_output_size + length (CHR 0x0A # ''... [Error output truncated]'')
    \<and> suffix (CHR 0x0A # ''... [Error output truncated]'') (limit_stderr err)
    \<and> stdout (fst (safe_execute ex (Spawned h fx (Completed out short rc)) now argv wd n env)) =
        limit_stdout out
    \<and> stderr (fst (safe_execute ex (Spawned h fx (Completed out short rc)) now argv wd n env)) =
        limit_stderr short
    \<and> stdout (fst (safe_execute ex (Spawned h fx (Completed short err rc)) now argv wd n env)) =
        limit_stdout short
    \<and> stderr (fst (safe_execute ex (Spawned h fx (Completed short err rc)) now argv wd n env)) =
        limit_stderr err"
proof -
  have cap: "max_output_size = 1048576"
    by (simp add: max_output_size_def)
  have out1: "limit_stdout out = take max_output_size out @ CHR 0x0A # ''... [Output truncated]''"
    using long_out by (simp add: limit_stdout_def)
  have err1: "limit_stderr err =
      take max_output_size err @ CHR 0x0A # ''... [Error output truncated]''"
    using long_err by (simp add: limit_stderr_def)
  have out2: "length (limit_stdout out) =
      max_output_size + length (CHR 0x0A # ''... [Output truncated]'')"
    using long_out by (simp add: out1 min_def)
  have err2: "length (limit_stderr err) =
      max_output_size + length (CHR 0x0A # ''... [Error output truncated]'')"
    using long_err by (simp add: err1 min_def)
  have out3: "suffix (CHR 0x0A # ''... [Output truncated]'') (limit_stdout out)"
    unfolding out1 by (rule suffix_appendI) (rule suffix_order.refl)
  have err3: "suffix (CHR 0x0A # ''... [Error output truncated]'') (limit_stderr err)"
    unfolding err1 by (rule suffix_appendI) (rule suffix_order.refl)
  have streams:
    "stdout (fst (safe_execute ex (Spawned h fx (Completed out short rc)) now argv wd n env)) =
        limit_stdout out"
    "stderr (fst (safe_execute ex (Spawned h fx (Completed out short rc)) now argv wd n env)) =
        limit_stderr short"
    "stdout (fst (safe_execute ex (Spawned h fx (Completed short err rc)) now argv wd n env)) =
        limit_stdout short"
    "stderr (fst (safe_execute ex (Spawned h fx (Completed short err rc)) now argv wd n env)) =
        limit_stderr err"
    by (simp_all add: safe_execute_completed)
  from cap out1 out2 out3 err1 err2 err3 streams show ?thesis
    by blast
qed

lemma big_output_long: "max_output_size < length big_output"
  by (simp add: big_output_def max_output_size_def)

theorem output_limited_by_own_markers_witness:
  "limit_stdout big_output = replicate 1048576 CHR ''a'' @ CHR 0x0A # ''... [Output truncated]''
   \<and> length (limit_stdout big_output) = 1048576 + 23
   \<and> limit_stderr big_output =
       replicate 1048576 CHR ''a'' @ CHR 0x0A # ''... [Error output truncated]''
   \<and> length (limit_stderr big_output) = 1048576 + 29"
proof -
  have t: "take max_output_size big_output = replicate 1048576 CHR ''a''"
    by (simp add: big_output_def max_output_size_def)
  show ?thesis
    using output_limited_by_own_markers [OF big_output_long big_output_long]
    by (simp add: t)
qed

text \<open>
  The claim C6 as first stated fails on an output of 1048577 characters: neither
  returned stream ends in \<^verbatim>\<open>...[truncated]\<close>, and neither has the limit plus the length
  of that marker as its length.
\<close>

theorem truncation_marker_counterexample:
  "\<not> suffix ''...[truncated]'' (limit_stdout big_output)
   \<and> \<not> suffix ''...[truncated]'' (limit_stderr big_output)
   \<and> length (limit_stdout big_output) \<noteq> max_output_size + length ''...[truncated]''
   \<and> length (limit_stderr big_output) \<noteq> max_output_size + length ''...[truncated]''"
proof -
  have out: "limit_stdout big_output =
      replicate 1048576 CHR ''a'' @ CHR 0x0A # ''... [Output truncated]''"
    by (simp add: limit_stdout_def big_output_def max_output_size_def)
  have err: "limit_stderr big_output =
      replicate 1048576 CHR ''a'' @ CHR 0x0A # ''... [Error output truncated]''"
    by (simp add: limit_stderr_def big_output_def max_output_size_def)
  have tail_out: "\<not> suffix ''...[truncated]'' (xs @ CHR 0x0A # ''... [Output truncated]'')" for xs
  proof
    assume "suffix ''...[truncated]'' (xs @ CHR 0x0A # ''... [Output truncated]'')"
    then have "suffix ''...[truncated]'' (CHR 0x0A # ''... [Output truncated]'')"
      by (simp add: suffix_append)
    then have "''...[truncated]'' = drop 9 (CHR 0x0A # ''... [Output truncated]'')"
      by (auto simp add: suffix_def)
    then show False by simp
  qed
  have tail_err:
    "\<not> suffix ''...[truncated]'' (xs @ CHR 0x0A # ''... [Error output truncated]'')" for xs
  proof
    assume "suffix ''...[truncated]'' (xs @ CHR 0x0A # ''... [Error output truncated]'')"
    then have "suffix ''...[truncated]'' (CHR 0x0A # ''... [Error output truncated]'')"
      by (simp add: suffix_append)
    then have "''...[truncated]'' = drop 15 (CHR 0x0A # ''... [Error output truncated]'')"
      by (auto simp add: suffix_def)
    then show False by simp
  qed
  have a: "\<not> suffix ''...[truncated]'' (limit_stdout big_output)"
    unfolding out by (rule tail_out)
  have b: "\<not> suffix ''...[truncated]'' (limit_stderr big_output)"
    unfolding err by (rule tail_err)
  have c: "length (limit_stdout big_output) \<noteq> max_output_size + length ''...[truncated]''"
    by (simp add: out max_output_size_def)
  have d: "length (limit_stderr big_output) \<noteq> max_output_size + length ''...[truncated]''"
    by (simp add: err max_output_size_def)
  from a b c d show ?thesis
    by blast
qed

subsection \<open>Allocation of the temporary file name\<close>

lemma alloc_loop_exhausted:
  assumes "fs (path_str temp_file) \<noteq> None"
    and "\<And>k. counter < k \<Longrightarrow> k \<le> 100 \<Longrightarrow>
           fs (path_str (candidate temp_dir unique_id extension k)) \<noteq> None"
    and "counter \<le> 100"
  shows "alloc_loop fs temp_dir unique_id extension temp_file counter =
           (if counter = 100 then temp_file else candidate temp_dir unique_id extension 100)"
  using assms
proof (induction fs temp_dir unique_id extension temp_file counter rule: alloc_loop.induct)
  case (1 fs temp_dir unique_id extension temp_file counter)
  show ?case
  proof (cases "counter < 100")
    case True
    have step: "alloc_loop fs temp_dir unique_id extension temp_file counter =
        alloc_loop fs temp_dir unique_id extension
          (candidate temp_dir unique_id extension (counter + 1)) (counter + 1)"
      using True "1.prems"(1) by (subst alloc_loop.simps) (simp add: candidate_def)
    have next_exists:
      "fs (path_str (candidate temp_dir unique_id extension (counter + 1))) \<noteq> None"
      using "1.prems"(2) [of "counter + 1"] True by simp
    have "alloc_loop fs temp_dir unique_id extension
          (candidate temp_dir unique_id extension (counter + 1)) (counter + 1) =
        (if counter + 1 = 100 then candidate temp_dir unique_id extension (counter + 1)
         else candidate temp_dir unique_id extension 100)"
      using "1.IH" [unfolded candidate_def [symmetric]] True "1.prems"(1,2) next_exists
      by (simp add: candidate_def)
    then show ?thesis
      using step True by auto
  next
    case False
    then have "counter = 100" using "1.prems"(3) by simp
    then show ?thesis
      by (subst alloc_loop.simps) simp
  qed
qed

lemma map_of_constant:
  "map_of (map (\<lambda>p. (p, v)) ks) p = (if p \<in> set ks then Some v else None)"
  by (induction ks) auto

lemma crowded_files_first:
  "crowded_files ''code_workspace/temp/code_1700000000_1234.py'' = Some (codepoints ''previous run'')"
  unfolding crowded_files_def map_of_constant by simp

lemma crowded_files_candidate:
  assumes "1 \<le> k" "k \<le> 100"
  shows "crowded_files
           (path_str (candidate ''code_workspace/temp'' ''1700000000_1234'' ''.py'' k)) =
         Some (codepoints ''previous run'')"
proof -
  have "k \<in> set [1..<101]"
    using assms by simp
  then have "path_str (candidate ''code_workspace/temp'' ''1700000000_1234'' ''.py'' k) \<in>
      set (''code_workspace/temp/code_1700000000_1234.py'' #
        map (\<lambda>k. path_str (candidate ''code_workspace/temp'' ''1700000000_1234'' ''.py'' k))
          [1..<101])"
    unfolding set_map list.set insert_iff by (intro disjI2 imageI)
  then show ?thesis
    unfolding crowded_files_def map_of_constant by (simp only: if_True)
qed

lemma str_nat_100: "str_nat 100 = ''100''"
  by (simp add: str_nat.simps digit_char_def)

lemma alloc_loop_crowded:
  "alloc_loop crowded_files ''code_workspace/temp'' ''1700000000_1234'' ''.py''
     \<lparr>parent = ''code_workspace/temp'', name = ''code_1700000000_1234.py''\<rparr> 0 =
   \<lparr>parent = ''code_workspace/temp'', name = ''code_1700000000_1234_100.py''\<rparr>"
proof -
  have first: "crowded_files
      (path_str \<lparr>parent = ''code_workspace/temp'', name = ''code_1700000000_1234.py''\<rparr>) \<noteq> None"
    using crowded_files_first by (simp add: path_str_def joinpath_def)
  have rest: "crowded_files
      (path_str (candidate ''code_workspace/temp'' ''1700000000_1234'' ''.py'' k)) \<noteq> None"
    if "0 < k" "k \<le> 100" for k
    using crowded_files_candidate [of k] that by simp
  have "alloc_loop crowded_files ''code_workspace/temp'' ''1700000000_1234'' ''.py''
     \<lparr>parent = ''code_workspace/temp'', name = ''code_1700000000_1234.py''\<rparr> 0 =
     candidate ''code_workspace/temp'' ''1700000000_1234'' ''.py'' 100"
    using alloc_loop_exhausted [OF first rest] by simp
  then show ?thesis
    by (simp add: candidate_def str_nat_100)
qed

text \<open>
  Claim C4 at a directory where the first name and the names with the counters 1 to 100
  are all taken. \<^verbatim>\<open>_create_temp_file\<close> raises nothing: it returns the name with
  counter 100, a file that exists, and replaces its content by the new code; the
  \<^verbatim>\<open>finally\<close> block of \<^verbatim>\<open>execute_code\<close> then deletes that file. The comment of the
  source on the loop is \<^verbatim>\<open>Ensure the file doesn't already exist\<close>.
\<close>

theorem allocation_reuses_existing_path:
  "files crowded ''code_workspace/temp/code_1700000000_1234_100.py'' = Some (codepoints ''previous run'')
   \<and> fst (create_temp_file crowded 1700000000 234 (codepoints ''print(1)'') ''python'') =
       Inr \<lparr>parent = ''code_workspace/temp'', name = ''code_1700000000_1234_100.py''\<rparr>
   \<and> files (snd (create_temp_file crowded 1700000000 234 (codepoints ''print(1)'') ''python''))
         ''code_workspace/temp/code_1700000000_1234_100.py'' = Some (codepoints ''print(1)'')
   \<and> files (snd (execute_code crowded (world_of (Spawned 7 (\<lambda>fs. fs) (Completed [] [] 0)))
         (codepoints ''print(1)'') ''python'' None None None))
         ''code_workspace/temp/code_1700000000_1234_100.py'' = None"
proof -
  have taken: "files crowded ''code_workspace/temp/code_1700000000_1234_100.py'' =
      Some (codepoints ''previous run'')"
    using crowded_files_candidate [of 100]
    by (simp add: crowded_def candidate_def str_nat_100 path_str_def joinpath_def)
  have allocated: "allocate_temp_file crowded 1700000000 234 ''python'' =
       \<lparr>parent = ''code_workspace/temp'', name = ''code_1700000000_1234_100.py''\<rparr>"
    using alloc_loop_crowded
    by (simp add: allocate_temp_file_def Let_def crowded_def ex0_def extensions_def lower_def
          lower_char_def joinpath_def str_nat_clock str_nat_rand)
  note created = create_temp_file_written [OF first_surrogate_codepoints [of "''print(1)''"],
      of crowded 1700000000 234 "''python''"]
  have chosen: "fst (create_temp_file crowded 1700000000 234 (codepoints ''print(1)'')
       ''python'') =
       Inr \<lparr>parent = ''code_workspace/temp'', name = ''code_1700000000_1234_100.py''\<rparr>"
    by (simp add: created allocated)
  have written: "files (snd (create_temp_file crowded 1700000000 234 (codepoints ''print(1)'')
         ''python''))
         ''code_workspace/temp/code_1700000000_1234_100.py'' = Some (codepoints ''print(1)'')"
    by (simp add: created allocated path_str_def joinpath_def)
  have deleted: "files (snd (execute_code crowded
         (world_of (Spawned 7 (\<lambda>fs. fs) (Completed [] [] 0)))
         (codepoints ''print(1)'') ''python'' None None None))
         ''code_workspace/temp/code_1700000000_1234_100.py'' = None"
    using temp_file_gone [OF first_surrogate_codepoints [of "''print(1)''"],
        of crowded "world_of (Spawned 7 (\<lambda>fs. fs) (Completed [] [] 0))"
        "''python''" None None None]
    by (simp add: world_of_fields allocated path_str_def joinpath_def)
  from taken chosen written deleted show ?thesis
    by blast
qed

text \<open>
  Short of that case the loop does what its comment says: the name it returns is free,
  unless it is the one with counter 100 (or the loop was entered with the counter used
  up).
\<close>

lemma alloc_loop_fresh_unless_exhausted:
  "fs (path_str (alloc_loop fs temp_dir unique_id extension temp_file counter)) = None
   \<or> alloc_loop fs temp_dir unique_id extension temp_file counter =
       (if counter < 100 then candidate temp_dir unique_id extension 100 else temp_file)"
proof (induction fs temp_dir unique_id extension temp_file counter rule: alloc_loop.induct)
  case (1 fs temp_dir unique_id extension temp_file counter)
  show ?case
  proof (cases "fs (path_str temp_file) \<noteq> None \<and> counter < 100")
    case True
    then have step: "alloc_loop fs temp_dir unique_id extension temp_file counter =
        alloc_loop fs temp_dir unique_id extension
          (candidate temp_dir unique_id extension (counter + 1)) (counter + 1)"
      by (subst alloc_loop.simps) (simp add: candidate_def)
    show ?thesis
    proof (cases "counter + 1 < 100")
      case True
      with \<open>fs (path_str temp_file) \<noteq> None \<and> counter < 100\<close> "1.IH" show ?thesis
        unfolding step candidate_def [symmetric] by simp
    next
      case False
      with \<open>fs (path_str temp_file) \<noteq> None \<and> counter < 100\<close>
      have last: "counter + 1 = 100" by simp
      from "1.IH" [OF \<open>fs (path_str temp_file) \<noteq> None \<and> counter < 100\<close>]
      show ?thesis
        unfolding step candidate_def [symmetric] last
        using \<open>fs (path_str temp_file) \<noteq> None \<and> counter < 100\<close> by simp
    qed
  next
    case False
    then show ?thesis
      by (subst (1 2) alloc_loop.simps) auto
  qed
qed

subsection \<open>Unknown sessions\<close>

text \<open>
  Claim C9, as amended. For a session id that is no key of \<open>interactive_sessions\<close>,
  \<^verbatim>\<open>execute_in_session\<close> raises \<^verbatim>\<open>ValueError("Session not found: ...")\<close> and leaves the
  engine as it was, nothing being executed; \<^verbatim>\<open>get_session_info\<close> does not raise: it
  returns the dictionary whose only entry is \<^verbatim>\<open>"error": "Session not found"\<close>.
\<close>

theorem unknown_session_reported:
  assumes unknown: "interactive_sessions eng sid = None"
  shows "execute_in_session eng w sid code =
           (Inl (ValueError (''Session not found: '' @ sid)), eng)
         \<and> get_session_info eng sid = Inr [(''error'', PyStr ''Session not found'')]"
  by (simp add: execute_in_session_def get_session_info_def unknown)

theorem unknown_session_reported_witness:
  "execute_in_session engine0 (world_of (SpawnRaises [])) ''session_1700000000''
     (codepoints ''print(1)'') =
     (Inl (ValueError ''Session not found: session_1700000000''), engine0)
   \<and> get_session_info engine0 ''session_1700000000'' =
     Inr [(''error'', PyStr ''Session not found'')]"
proof -
  have unknown: "interactive_sessions engine0 ''session_1700000000'' = None"
    by (simp add: engine0_def)
  show ?thesis
    using unknown_session_reported
      [OF unknown, of "world_of (SpawnRaises [])" "codepoints ''print(1)''"]
    by simp
qed

text \<open>
  The claim C9 as first stated (both operations fail with an error) does not hold of
  \<^verbatim>\<open>get_session_info\<close>: for an unknown id it returns, where \<^verbatim>\<open>execute_in_session\<close>
  raises.
\<close>

theorem session_info_returns_counterexample:
  "interactive_sessions engine0 ''session_1700000000'' = None
   \<and> \<not> isl (get_session_info engine0 ''session_1700000000'')
   \<and> isl (fst (execute_in_session engine0 (world_of (SpawnRaises [])) ''session_1700000000''
        (codepoints ''print(1)'')))"
  by (simp add: engine0_def get_session_info_def execute_in_session_def)

text \<open>For the id of a session that was started, the information is returned.\<close>

lemma started_session_known:
  "get_session_info (snd (start_interactive_session eng now now_iso language))
     (fst (start_interactive_session eng now now_iso language)) =
   Inr [(''session_id'', PyStr (''session_'' @ str_nat now)),
        (''language'', PyStr language),
        (''created_at'', PyStr now_iso),
        (''executions_count'', PyInt 0),
        (''last_execution'', PyNone)]"
  by (simp add: start_interactive_session_def get_session_info_def Let_def)

end
